theory Spec2Isabelle
  imports Main "HOL-Library.Sublist"
begin

section \<open>The persisted state (database.py)\<close>

text \<open>
  The three tables created by \<open>init_db\<close>. A table is the list of its rows in rowid
  order, which is how the engine stores a table with an \<open>INTEGER PRIMARY KEY\<close>.
  Every table is declared \<open>AUTOINCREMENT\<close>, so the engine also remembers, per table,
  the largest rowid it has ever handed out (\<open>sqlite_sequence\<close>): the \<open>_seq\<close> fields.
  \<open>TEXT\<close> columns are strings; \<open>session_end\<close> is the only column the code leaves
  \<open>NULL\<close>. The clock (\<open>datetime.now().isoformat()\<close>) is an input of every writing
  operation, the argument \<open>now\<close>.
\<close>

record user_row =
  u_id :: int
  u_user_id :: string
  u_name :: string
  u_preferred_language :: string
  u_voice_tone :: string
  u_created_at :: string

record conversation_row =
  c_id :: int
  c_user_id :: string
  c_role :: string
  c_message :: string
  c_timestamp :: string

record session_row =
  s_id :: int
  s_user_id :: string
  s_session_start :: string
  s_session_end :: "string option"

record db =
  users :: "user_row list"
  users_seq :: int
  conversation :: "conversation_row list"
  conversation_seq :: int
  sessions :: "session_row list"
  sessions_seq :: int

text \<open>What \<open>get_user_profile\<close> returns: the dict with keys name, language, tone.\<close>

record profile =
  p_name :: string
  p_language :: string
  p_tone :: string

text \<open>An element of what \<open>get_recent_context\<close> returns: the dict with keys role, content.\<close>

record context_msg =
  role :: string
  content :: string

text \<open>
  The errors the store operations can raise on well-typed arguments without a fault of
  the disk: \<open>OverflowError\<close>, when the sqlite3 module refuses to bind a Python int
  outside the signed 64-bit range, and \<open>OperationalError\<close>, when an \<open>INSERT\<close> finds
  the rowids of its table used up (\<open>SQLITE_FULL\<close>). A call that raises stores nothing.
\<close>

datatype error = OverflowError | OperationalError

text \<open>\<open>init_db\<close>: \<open>CREATE TABLE IF NOT EXISTS\<close>, three times. \<open>None\<close> is a database
  file that has no tables yet.\<close>

definition empty_db :: db where
  "empty_db = \<lparr>users = [], users_seq = 0, conversation = [], conversation_seq = 0,
     sessions = [], sessions_seq = 0\<rparr>"

definition init_db :: "db option \<Rightarrow> db" where
  "init_db file = (case file of None \<Rightarrow> empty_db | Some d \<Rightarrow> d)"

text \<open>
  The rowid an \<open>AUTOINCREMENT\<close> table gives to an inserted row: one more than the
  largest rowid in the table and than the largest one ever handed out; 1 in a table
  that never had a row. Rowids are signed 64-bit integers: once \<open>2^63 - 1\<close> has been
  reached the engine hands out no rowid, and the \<open>INSERT\<close> fails.
\<close>

definition largest_rowid :: "int \<Rightarrow> int list \<Rightarrow> int" where
  "largest_rowid seq ids = max seq (foldr max ids 0)"

definition new_rowid :: "int \<Rightarrow> int list \<Rightarrow> error + int" where
  "new_rowid seq ids =
     (if 2 ^ 63 - 1 \<le> largest_rowid seq ids then Inl OperationalError
      else Inr (largest_rowid seq ids + 1))"

text \<open>
  \<open>INSERT OR IGNORE\<close> on the \<open>UNIQUE\<close> column \<open>user_id\<close>: a row whose \<open>user_id\<close> is
  already stored is dropped. The engine draws the rowid before it checks the
  constraint, so the dropped row still consumes one.
\<close>

definition create_user_profile :: "db \<Rightarrow> string \<Rightarrow> string \<Rightarrow> string \<Rightarrow> string \<Rightarrow> string \<Rightarrow> error + db" where
  "create_user_profile d user_id name language tone now =
     (case new_rowid (users_seq d) (map u_id (users d)) of
        Inl e \<Rightarrow> Inl e
      | Inr rid \<Rightarrow>
          Inr (if list_ex (\<lambda>r. u_user_id r = user_id) (users d)
               then d\<lparr>users_seq := rid\<rparr>
               else d\<lparr>users := users d @
                        [\<lparr>u_id = rid, u_user_id = user_id, u_name = name,
                          u_preferred_language = language, u_voice_tone = tone,
                          u_created_at = now\<rparr>],
                      users_seq := rid\<rparr>))"

definition get_user_profile :: "db \<Rightarrow> string \<Rightarrow> profile option" where
  "get_user_profile d user_id =
     (case find (\<lambda>r. u_user_id r = user_id) (users d) of
        Some r \<Rightarrow> Some \<lparr>p_name = u_name r, p_language = u_preferred_language r,
                         p_tone = u_voice_tone r\<rparr>
      | None \<Rightarrow> None)"

text \<open>
  \<open>update_user_preferences\<close>: \<open>language=None, tone=None\<close> are optional arguments, and
  \<open>if language:\<close> is Python truthiness: \<open>None\<close> and the empty string are both false.
\<close>

definition set_language :: "string \<Rightarrow> string \<Rightarrow> user_row \<Rightarrow> user_row" where
  "set_language user_id language r =
     (if u_user_id r = user_id then r\<lparr>u_preferred_language := language\<rparr> else r)"

definition set_tone :: "string \<Rightarrow> string \<Rightarrow> user_row \<Rightarrow> user_row" where
  "set_tone user_id tone r =
     (if u_user_id r = user_id then r\<lparr>u_voice_tone := tone\<rparr> else r)"

definition update_user_preferences :: "db \<Rightarrow> string \<Rightarrow> string option \<Rightarrow> string option \<Rightarrow> db" where
  "update_user_preferences d user_id language tone =
     (let d1 = (case language of
                  None \<Rightarrow> d
                | Some l \<Rightarrow> if l = [] then d
                            else d\<lparr>users := map (set_language user_id l) (users d)\<rparr>)
      in (case tone of
            None \<Rightarrow> d1
          | Some t \<Rightarrow> if t = [] then d1
                      else d1\<lparr>users := map (set_tone user_id t) (users d1)\<rparr>))"

definition start_session :: "db \<Rightarrow> string \<Rightarrow> string \<Rightarrow> error + db" where
  "start_session d user_id now =
     (case new_rowid (sessions_seq d) (map s_id (sessions d)) of
        Inl e \<Rightarrow> Inl e
      | Inr rid \<Rightarrow>
          Inr (d\<lparr>sessions := sessions d @
                   [\<lparr>s_id = rid, s_user_id = user_id, s_session_start = now,
                     s_session_end = None\<rparr>],
                 sessions_seq := rid\<rparr>))"

text \<open>\<open>UPDATE sessions SET session_end = ? WHERE user_id = ? AND session_end IS NULL\<close>\<close>

definition close_row :: "string \<Rightarrow> string \<Rightarrow> session_row \<Rightarrow> session_row" where
  "close_row user_id now r =
     (if s_user_id r = user_id \<and> s_session_end r = None
      then r\<lparr>s_session_end := Some now\<rparr> else r)"

definition end_session :: "db \<Rightarrow> string \<Rightarrow> string \<Rightarrow> db" where
  "end_session d user_id now = d\<lparr>sessions := map (close_row user_id now) (sessions d)\<rparr>"

definition save_message :: "db \<Rightarrow> string \<Rightarrow> string \<Rightarrow> string \<Rightarrow> string \<Rightarrow> error + db" where
  "save_message d user_id rl message now =
     (case new_rowid (conversation_seq d) (map c_id (conversation d)) of
        Inl e \<Rightarrow> Inl e
      | Inr rid \<Rightarrow>
          Inr (d\<lparr>conversation := conversation d @
                   [\<lparr>c_id = rid, c_user_id = user_id, c_role = rl, c_message = message,
                     c_timestamp = now\<rparr>],
                 conversation_seq := rid\<rparr>))"

text \<open>
  \<open>SELECT role, message FROM conversation WHERE user_id = ? ORDER BY id DESC LIMIT ?\<close>,
  then \<open>rows.reverse()\<close>. The engine reads a negative \<open>LIMIT\<close> as no limit at all.
\<close>

definition sql_limit :: "int \<Rightarrow> 'a list \<Rightarrow> 'a list" where
  "sql_limit limit rows = (if limit < 0 then rows else take (nat limit) rows)"

definition get_recent_context :: "db \<Rightarrow> string \<Rightarrow> int \<Rightarrow> error + context_msg list" where
  "get_recent_context d user_id limit =
     (if limit < - (2 ^ 63) \<or> 2 ^ 63 \<le> limit then Inl OverflowError
      else
        (let rows = sql_limit limit
                      (rev (sort_key c_id (filter (\<lambda>r. c_user_id r = user_id) (conversation d))))
         in Inr (map (\<lambda>r. \<lparr>role = c_role r, content = c_message r\<rparr>) (rev rows))))"


section \<open>Sequences of calls\<close>

text \<open>
  A run of \<open>save_message\<close> calls for one user, each with its role, its text and the
  clock reading of the call. The run stops at the first call that raises.
\<close>

fun save_all :: "db \<Rightarrow> string \<Rightarrow> (string \<times> string \<times> string) list \<Rightarrow> error + db" where
  "save_all d user_id [] = Inr d"
| "save_all d user_id ((rl, message, now) # rest) =
     (case save_message d user_id rl message now of
        Inl e \<Rightarrow> Inl e
      | Inr d' \<Rightarrow> save_all d' user_id rest)"

text \<open>
  The calls the orchestration loop can make into the store, and the stored state each
  one leaves behind. \<open>get_user_profile\<close> and \<open>get_recent_context\<close> only run a
  \<open>SELECT\<close>; a call that raises leaves the state as it was.
\<close>

datatype store_op =
    Ensure_profile string string string string string
  | Get_profile string
  | Update_preferences string "string option" "string option"
  | Append string string string string
  | Recent string int
  | Open_session string string
  | Close_session string string

definition state_after :: "db \<Rightarrow> error + db \<Rightarrow> db" where
  "state_after d r = (case r of Inl e \<Rightarrow> d | Inr d' \<Rightarrow> d')"

fun effect :: "store_op \<Rightarrow> db \<Rightarrow> db" where
  "effect (Ensure_profile user_id name language tone now) d =
     state_after d (create_user_profile d user_id name language tone now)"
| "effect (Get_profile user_id) d = d"
| "effect (Update_preferences user_id language tone) d =
     update_user_preferences d user_id language tone"
| "effect (Append user_id rl message now) d =
     state_after d (save_message d user_id rl message now)"
| "effect (Recent user_id limit) d = d"
| "effect (Open_session user_id now) d = state_after d (start_session d user_id now)"
| "effect (Close_session user_id now) d = end_session d user_id now"

text \<open>
  The shape of every state the operations can produce from an empty database: rows lie
  in strictly increasing rowid order (\<open>PRIMARY KEY\<close>), and no two profiles share a
  \<open>user_id\<close> (\<open>UNIQUE\<close>).
\<close>

definition wf_db :: "db \<Rightarrow> bool" where
  "wf_db d = (sorted_wrt (<) (map u_id (users d)) \<and> distinct (map u_user_id (users d)) \<and>
     sorted_wrt (<) (map c_id (conversation d)) \<and> sorted_wrt (<) (map s_id (sessions d)))"

section \<open>The orchestration loop (app\_og.py)\<close>

text \<open>
  Everything \<open>main\<close> does outside the store (microphone, speech services, language
  detection, the backend, the console) is taken as given: for each such call the
  outcome the outside world produced, a returned value or a raised exception. Python
  separates the exceptions under \<open>Exception\<close>, which \<open>except Exception\<close> catches, from
  \<open>KeyboardInterrupt\<close> and \<open>SystemExit\<close>, which it does not.
\<close>

datatype exn = KeyboardInterrupt | SystemExit | Exception string

fun is_Exception :: "exn \<Rightarrow> bool" where
  "is_Exception (Exception name) = True"
| "is_Exception KeyboardInterrupt = False"
| "is_Exception SystemExit = False"

datatype 'a outcome = Returns 'a | Raises exn

text \<open>\<open>try: ... except Exception: <default>\<close> around a call.\<close>

definition except_Exception :: "'a \<Rightarrow> 'a outcome \<Rightarrow> 'a outcome" where
  "except_Exception dflt r =
     (case r of
        Returns v \<Rightarrow> Returns v
      | Raises e \<Rightarrow> if is_Exception e then Returns dflt else Raises e)"

text \<open>The names \<open>main\<close> imports from \<open>config\<close> and reads.\<close>

record config =
  default_language :: string
  supported_lang_codes_for_tts :: "string list"
  max_context_messages :: int

text \<open>
  \<open>str.strip()\<close> and \<open>str.lower()\<close> on text within ASCII: the whitespace characters are
  space, tab, line feed, vertical tab, form feed, carriage return and the four
  separators \<open>0x1C\<close> to \<open>0x1F\<close>.
\<close>

definition is_space :: "char \<Rightarrow> bool" where
  "is_space c = ((of_char c :: nat) \<in> {9, 10, 11, 12, 13, 28, 29, 30, 31, 32})"

definition strip :: "string \<Rightarrow> string" where
  "strip s = rev (dropWhile is_space (rev (dropWhile is_space s)))"

definition lower :: "string \<Rightarrow> string" where
  "lower s = map (\<lambda>c. if 65 \<le> (of_char c :: nat) \<and> (of_char c :: nat) \<le> 90
                       then char_of ((of_char c :: nat) + 32) else c) s"

definition exit_phrases :: "string list" where
  "exit_phrases = [''exit'', ''quit'', ''stop'', ''bye'', ''goodbye'', ''band karo'',
     ''nikal jao'', ''phir milenge'']"

text \<open>
  The helpers of app\_og.py that wrap an outside call. Each takes the outcome of the
  wrapped call. \<open>speak_text\<close>, \<open>transcribe_audio_file\<close>, \<open>detect_language_safe\<close>,
  \<open>classify_intent_and_entities\<close> and \<open>fetch_user_data_from_backend\<close> catch \<open>Exception\<close>
  and return their fallback; any other exception passes through them.
\<close>

definition speak_text :: "unit outcome \<Rightarrow> unit outcome" where
  "speak_text played = except_Exception () played"

definition transcribe_audio_file :: "string outcome \<Rightarrow> string outcome" where
  "transcribe_audio_file res =
     except_Exception [] (case res of Returns text \<Rightarrow> Returns (strip text) | Raises e \<Rightarrow> Raises e)"

definition detect_language_safe :: "string outcome \<Rightarrow> string \<Rightarrow> string outcome" where
  "detect_language_safe detected fallback = except_Exception fallback detected"

definition classify_intent_and_entities :: "unit outcome \<Rightarrow> unit outcome" where
  "classify_intent_and_entities resp = except_Exception () resp"

definition fetch_user_data_from_backend :: "unit outcome \<Rightarrow> unit outcome" where
  "fetch_user_data_from_backend resp = except_Exception () resp"

text \<open>
  What the outside world does during one pass of the \<open>while True\<close> loop, in the order
  of the source (lines 309 to 385):
  \<^item> \<open>t_listen\<close>: opening the microphone, listening, writing the temporary file;
  \<^item> \<open>t_transcription\<close>: the transcription request;
  \<^item> \<open>t_remove\<close>: removing the temporary file;
  \<^item> \<open>t_repeat\<close>, \<open>t_goodbye\<close>, \<open>t_reply\<close>: playing the three spoken answers;
  \<^item> \<open>t_detect\<close>: language detection;
  \<^item> \<open>t_classify\<close>, \<open>t_fetch\<close>: the classifier and the user-data request;
  \<^item> \<open>t_backend\<close>: posting the payload, printing the response and reading its message
    (lines 366 to 370): the message, empty when the response carries none;
  \<^item> \<open>t_translate\<close>: the translation request;
  \<^item> \<open>t_now_user\<close>, \<open>t_now_assistant\<close>: the clock at the two \<open>save_message\<close> calls.
\<close>

record turn =
  t_listen :: "unit outcome"
  t_transcription :: "string outcome"
  t_remove :: "unit outcome"
  t_repeat :: "unit outcome"
  t_goodbye :: "unit outcome"
  t_detect :: "string outcome"
  t_now_user :: string
  t_classify :: "unit outcome"
  t_fetch :: "unit outcome"
  t_backend :: "string outcome"
  t_translate :: "string outcome"
  t_now_assistant :: string
  t_reply :: "unit outcome"

text \<open>How one pass of the loop body ends: \<open>continue\<close> or falling off the end of the body,
  \<open>break\<close>, or an exception leaving the body; each with the stored state at that point.\<close>

datatype step = Continue db | Break db | Raised exn db

text \<open>A call inside the loop body: when it raises, the body is left with the state
  stored so far; when it returns, the body goes on with the returned value.\<close>

definition call :: "'a outcome \<Rightarrow> db \<Rightarrow> ('a \<Rightarrow> step) \<Rightarrow> step" where
  "call r d rest = (case r of Raises e \<Rightarrow> Raised e d | Returns v \<Rightarrow> rest v)"

text \<open>A call into the store, seen from \<open>main\<close>: both store errors are exceptions under
  \<open>Exception\<close>.\<close>

definition store_call :: "error + 'a \<Rightarrow> 'a outcome" where
  "store_call r =
     (case r of
        Inl OverflowError \<Rightarrow> Raises (Exception ''OverflowError'')
      | Inl OperationalError \<Rightarrow> Raises (Exception ''OperationalError'')
      | Inr v \<Rightarrow> Returns v)"

definition turn_body :: "config \<Rightarrow> string \<Rightarrow> string \<Rightarrow> turn \<Rightarrow> db \<Rightarrow> step" where
  "turn_body cfg user_id preferred_lang t d =
     call (t_listen t) d (\<lambda>_.
     call (transcribe_audio_file (t_transcription t)) d (\<lambda>user_text.
     call (except_Exception () (t_remove t)) d (\<lambda>_.
     if user_text = [] then
       call (speak_text (t_repeat t)) d (\<lambda>_. Continue d)
     else if lower (strip user_text) \<in> set exit_phrases then
       call (speak_text (t_goodbye t)) d (\<lambda>_. Break d)
     else
     call (detect_language_safe (t_detect t) preferred_lang) d (\<lambda>lang.
     let detected_lang =
           (if lang \<in> set (supported_lang_codes_for_tts cfg) then lang else preferred_lang)
     in
     call (store_call (save_message d user_id ''user'' user_text (t_now_user t))) d (\<lambda>d1.
     call (store_call (get_recent_context d1 user_id (max_context_messages cfg))) d1 (\<lambda>context_msgs.
     call (classify_intent_and_entities (t_classify t)) d1 (\<lambda>_.
     call (fetch_user_data_from_backend (t_fetch t)) d1 (\<lambda>_.
     call (t_backend t) d1 (\<lambda>message.
     let final_message =
           (if message = [] then ''Sorry, I could not complete that request right now.''
            else message)
     in
     call (if detected_lang \<noteq> [] \<and> \<not> prefix ''en'' detected_lang
           then except_Exception final_message (t_translate t)
           else Returns final_message) d1 (\<lambda>final_message_translated.
     call (store_call (save_message d1 user_id ''assistant'' final_message_translated
             (t_now_assistant t))) d1 (\<lambda>d2.
     call (speak_text (t_reply t)) d2 (\<lambda>_. Continue d2))))))))))))"

text \<open>
  \<open>while True:\<close> over the passes the outside world goes through. The result is how the
  loop was left: \<open>None\<close> after \<open>break\<close>, or the exception that left it. A script that
  ends while the loop still listens has no result (\<open>None\<close> outside): the loop has not
  terminated.
\<close>

fun voice_loop :: "config \<Rightarrow> string \<Rightarrow> string \<Rightarrow> turn list \<Rightarrow> db \<Rightarrow> (exn option \<times> db) option" where
  "voice_loop cfg user_id preferred_lang [] d = None"
| "voice_loop cfg user_id preferred_lang (t # ts) d =
     (case turn_body cfg user_id preferred_lang t d of
        Continue d' \<Rightarrow> voice_loop cfg user_id preferred_lang ts d'
      | Break d' \<Rightarrow> Some (None, d')
      | Raised e d' \<Rightarrow> Some (Some e, d'))"

text \<open>
  What the outside world does during one run of \<open>main\<close>: the user id taken from the
  environment or read from the console, the clock at \<open>create_user_profile\<close>,
  \<open>start_session\<close> and \<open>end_session\<close>, playing the greeting, constructing the
  recognizer, and the passes of the loop.
\<close>

record run =
  r_user_id :: "string outcome"
  r_now_create :: string
  r_now_start :: string
  r_greeting :: "unit outcome"
  r_recognizer :: "unit outcome"
  r_turns :: "turn list"
  r_now_end :: string

text \<open>
  \<open>main\<close>. The result is \<open>None\<close> when \<open>main\<close> has not returned within the script, and
  otherwise the exception that left \<open>main\<close> (\<open>None\<close> for a normal return) with the stored
  state it leaves behind. A call outside the \<open>try\<close> statement that raises leaves
  \<open>main\<close> at once (\<open>leave\<close>). The \<open>try\<close> statement starts after the greeting and the
  construction of the recognizer and holds the loop; its handlers catch
  \<open>KeyboardInterrupt\<close> and \<open>Exception\<close>, and its \<open>finally\<close> clause calls \<open>end_session\<close>
  (\<open>try_finally\<close>).
\<close>

definition leave :: "'a outcome \<Rightarrow> db \<Rightarrow> ('a \<Rightarrow> (exn option \<times> db) option)
    \<Rightarrow> (exn option \<times> db) option" where
  "leave r d rest = (case r of Raises e \<Rightarrow> Some (Some e, d) | Returns v \<Rightarrow> rest v)"

definition try_finally :: "string \<Rightarrow> string \<Rightarrow> (exn option \<times> db) option
    \<Rightarrow> (exn option \<times> db) option" where
  "try_finally user_id now body =
     (case body of
        None \<Rightarrow> None
      | Some (left, d) \<Rightarrow>
          Some (case left of
                  None \<Rightarrow> None
                | Some e \<Rightarrow> if e = KeyboardInterrupt \<or> is_Exception e then None else Some e,
                end_session d user_id now))"

definition main :: "config \<Rightarrow> run \<Rightarrow> db \<Rightarrow> (exn option \<times> db) option" where
  "main cfg w d =
     leave (r_user_id w) d (\<lambda>user_id.
     if user_id = [] then Some (None, d)
     else
     leave (case get_user_profile d user_id of
              Some profile \<Rightarrow> Returns d
            | None \<Rightarrow> store_call (create_user_profile d user_id
                        (takeWhile (\<lambda>c. c \<noteq> CHR ''@'') user_id)
                        (default_language cfg) ''neutral'' (r_now_create w))) d (\<lambda>d1.
     leave (case get_user_profile d1 user_id of
              None \<Rightarrow> Raises (Exception ''AttributeError'')
            | Some profile \<Rightarrow> Returns (p_language profile)) d1 (\<lambda>preferred_lang.
     leave (store_call (start_session d1 user_id (r_now_start w))) d1 (\<lambda>d2.
     leave (speak_text (r_greeting w)) d2 (\<lambda>_.
     leave (r_recognizer w) d2 (\<lambda>_.
     try_finally user_id (r_now_end w)
       (voice_loop cfg user_id preferred_lang (r_turns w) d2)))))))"

section \<open>Rowids and the state invariant\<close>

lemmas store_defs = state_after_def create_user_profile_def start_session_def
  save_message_def end_session_def close_row_def new_rowid_def largest_rowid_def empty_db_def

lemma foldr_max_le_iff: "foldr max ids (0::int) \<le> b \<longleftrightarrow> (\<forall>i\<in>set ids. i \<le> b) \<and> 0 \<le> b"
  by (induction ids) auto

lemma largest_rowid_le_iff:
  "largest_rowid seq ids \<le> b \<longleftrightarrow> seq \<le> b \<and> (\<forall>i\<in>set ids. i \<le> b) \<and> 0 \<le> b"
  by (simp add: largest_rowid_def foldr_max_le_iff)

lemma largest_rowid_ge: "i \<in> set ids \<Longrightarrow> i \<le> largest_rowid seq ids"
  using largest_rowid_le_iff [of seq ids "largest_rowid seq ids"] by simp

lemma largest_rowid_nonneg: "0 \<le> largest_rowid seq ids"
  using largest_rowid_le_iff [of seq ids "largest_rowid seq ids"] by simp

lemma new_rowid_Inr_iff:
  "new_rowid seq ids = Inr rid \<longleftrightarrow>
     largest_rowid seq ids < 2 ^ 63 - 1 \<and> rid = largest_rowid seq ids + 1"
  by (auto simp: new_rowid_def)

lemma new_rowid_gt: "new_rowid seq ids = Inr rid \<Longrightarrow> i \<in> set ids \<Longrightarrow> i < rid"
  using largest_rowid_ge [of i ids seq] by (simp add: new_rowid_Inr_iff)

lemma sorted_wrt_snoc_rowid:
  "new_rowid seq ids = Inr rid \<Longrightarrow> sorted_wrt (<) ids \<Longrightarrow> sorted_wrt (<) (ids @ [rid])"
  by (simp add: sorted_wrt_append new_rowid_gt)

lemma largest_rowid_same:
  assumes "new_rowid seq ids = Inr rid"
  shows "largest_rowid rid ids \<le> largest_rowid seq ids + 1"
proof -
  have "i \<le> largest_rowid seq ids + 1" if "i \<in> set ids" for i
    using largest_rowid_ge [OF that, of seq] by linarith
  moreover have "0 \<le> largest_rowid seq ids + 1"
    using largest_rowid_nonneg [of seq ids] by linarith
  moreover have "rid = largest_rowid seq ids + 1"
    using assms by (simp add: new_rowid_Inr_iff)
  ultimately show ?thesis
    by (simp add: largest_rowid_le_iff)
qed

lemma largest_rowid_snoc:
  assumes "new_rowid seq ids = Inr rid"
  shows "largest_rowid rid (ids @ [rid]) \<le> largest_rowid seq ids + 1"
proof -
  have "rid = largest_rowid seq ids + 1"
    using assms by (simp add: new_rowid_Inr_iff)
  with largest_rowid_same [OF assms] show ?thesis
    by (simp add: largest_rowid_le_iff)
qed

lemma create_user_profile_Inr:
  "create_user_profile d u n l t now = Inr d' \<longleftrightarrow>
     (\<exists>rid. new_rowid (users_seq d) (map u_id (users d)) = Inr rid \<and>
        d' = (if list_ex (\<lambda>r. u_user_id r = u) (users d)
              then d\<lparr>users_seq := rid\<rparr>
              else d\<lparr>users := users d @
                       [\<lparr>u_id = rid, u_user_id = u, u_name = n, u_preferred_language = l,
                         u_voice_tone = t, u_created_at = now\<rparr>],
                     users_seq := rid\<rparr>))"
  by (auto simp: create_user_profile_def split: sum.splits)

lemma start_session_Inr:
  "start_session d u now = Inr d' \<longleftrightarrow>
     (\<exists>rid. new_rowid (sessions_seq d) (map s_id (sessions d)) = Inr rid \<and>
        d' = d\<lparr>sessions := sessions d @
                 [\<lparr>s_id = rid, s_user_id = u, s_session_start = now, s_session_end = None\<rparr>],
               sessions_seq := rid\<rparr>)"
  by (auto simp: start_session_def split: sum.splits)

lemma save_message_Inr:
  "save_message d u rl m now = Inr d' \<longleftrightarrow>
     (\<exists>rid. new_rowid (conversation_seq d) (map c_id (conversation d)) = Inr rid \<and>
        d' = d\<lparr>conversation := conversation d @
                 [\<lparr>c_id = rid, c_user_id = u, c_role = rl, c_message = m, c_timestamp = now\<rparr>],
               conversation_seq := rid\<rparr>)"
  by (auto simp: save_message_def split: sum.splits)

lemma wf_empty_db: "wf_db empty_db"
  by (simp add: wf_db_def empty_db_def)

lemma wf_create_user_profile:
  assumes "create_user_profile d u n l t now = Inr d'" "wf_db d"
  shows "wf_db d'"
proof -
  from assms(1) obtain rid where rid: "new_rowid (users_seq d) (map u_id (users d)) = Inr rid"
    and d': "d' = (if list_ex (\<lambda>r. u_user_id r = u) (users d)
              then d\<lparr>users_seq := rid\<rparr>
              else d\<lparr>users := users d @
                       [\<lparr>u_id = rid, u_user_id = u, u_name = n, u_preferred_language = l,
                         u_voice_tone = t, u_created_at = now\<rparr>],
                     users_seq := rid\<rparr>)"
    unfolding create_user_profile_Inr by blast
  show ?thesis
  proof (cases "list_ex (\<lambda>r. u_user_id r = u) (users d)")
    case True
    with d' assms(2) show ?thesis by (simp add: wf_db_def)
  next
    case False
    then have "u \<notin> u_user_id ` set (users d)"
      by (auto simp: list_ex_iff)
    with False d' assms(2) sorted_wrt_snoc_rowid [OF rid] show ?thesis
      by (simp add: wf_db_def)
  qed
qed

lemma map_u_id_set_language: "map u_id (map (set_language u l) rs) = map u_id rs"
  by (induction rs) (auto simp: set_language_def)

lemma map_u_user_id_set_language: "map u_user_id (map (set_language u l) rs) = map u_user_id rs"
  by (induction rs) (auto simp: set_language_def)

lemma map_u_id_set_tone: "map u_id (map (set_tone u l) rs) = map u_id rs"
  by (induction rs) (auto simp: set_tone_def)

lemma map_u_user_id_set_tone: "map u_user_id (map (set_tone u l) rs) = map u_user_id rs"
  by (induction rs) (auto simp: set_tone_def)

lemma wf_update_user_preferences: "wf_db d \<Longrightarrow> wf_db (update_user_preferences d u l t)"
  by (auto simp: wf_db_def update_user_preferences_def Let_def map_u_id_set_language
      map_u_user_id_set_language map_u_id_set_tone map_u_user_id_set_tone
      simp del: map_map split: option.splits)

lemma wf_start_session: "start_session d u now = Inr d' \<Longrightarrow> wf_db d \<Longrightarrow> wf_db d'"
  by (auto simp: start_session_Inr wf_db_def sorted_wrt_snoc_rowid)

lemma map_s_id_close_row: "map s_id (map (close_row u now) rs) = map s_id rs"
  by (induction rs) (auto simp: close_row_def)

lemma wf_end_session: "wf_db d \<Longrightarrow> wf_db (end_session d u now)"
  by (simp add: wf_db_def end_session_def map_s_id_close_row del: map_map)

lemma wf_save_message: "save_message d u r m now = Inr d' \<Longrightarrow> wf_db d \<Longrightarrow> wf_db d'"
  by (auto simp: save_message_Inr wf_db_def sorted_wrt_snoc_rowid)

lemma wf_state_after:
  "wf_db d \<Longrightarrow> (\<And>d'. r = Inr d' \<Longrightarrow> wf_db d') \<Longrightarrow> wf_db (state_after d r)"
  by (cases r) (simp_all add: state_after_def)

lemma wf_effect: "wf_db d \<Longrightarrow> wf_db (effect op d)"
  by (cases op)
     (auto intro: wf_state_after wf_create_user_profile wf_update_user_preferences
        wf_start_session wf_end_session wf_save_message)

lemma wf_save_all: "save_all d u ms = Inr d' \<Longrightarrow> wf_db d \<Longrightarrow> wf_db d'"
proof (induction d u ms rule: save_all.induct)
  case (1 d user_id)
  then show ?case by simp
next
  case (2 d user_id rl message now rest)
  then show ?case
    by (auto split: sum.splits dest: wf_save_message)
qed

section \<open>Session tracker\<close>

text \<open>
  C1, as the code has it. The claim reads: with more than one open session for a user,
  \<open>close_session\<close> closes only the most recently opened one and leaves the others open.
  The \<open>UPDATE\<close> of \<open>end_session\<close> has no such selection. Two sessions opened for
  \<open>u1\<close> and never closed are both open before the call, and both carry the closing
  time after it.
\<close>

theorem end_session_closes_older_session_too:
  "map s_session_end (sessions
      (effect (Open_session ''u1'' ''t2'') (effect (Open_session ''u1'' ''t1'') empty_db)))
     = [None, None] \<and>
   map s_session_end (sessions (end_session
      (effect (Open_session ''u1'' ''t2'') (effect (Open_session ''u1'' ''t1'') empty_db))
      ''u1'' ''t3''))
     = [Some ''t3'', Some ''t3'']"
  by (simp add: store_defs)

text \<open>
  C1, amended: \<open>close_session(user_id)\<close> keeps the number and order of the session
  rows, sets \<open>session_end\<close> to the closing time on every row of that user whose
  \<open>session_end\<close> is null, leaves every other session row as it was, and touches neither
  profiles nor messages.
\<close>

theorem end_session_closes_every_open:
  "length (sessions (end_session d u now)) = length (sessions d) \<and>
   (\<forall>i < length (sessions d).
      sessions (end_session d u now) ! i =
        (if s_user_id (sessions d ! i) = u \<and> s_session_end (sessions d ! i) = None
         then (sessions d ! i)\<lparr>s_session_end := Some now\<rparr> else sessions d ! i)) \<and>
   users (end_session d u now) = users d \<and>
   conversation (end_session d u now) = conversation d"
  by (simp add: end_session_def close_row_def)

theorem end_session_closes_every_open_witness:
  "sessions (end_session
      (effect (Open_session ''u1'' ''t3'')
        (effect (Open_session ''u2'' ''t2'') (effect (Open_session ''u1'' ''t1'') empty_db)))
      ''u1'' ''t4'') ! 0 =
   \<lparr>s_id = 1, s_user_id = ''u1'', s_session_start = ''t1'', s_session_end = Some ''t4''\<rparr>"
  using end_session_closes_every_open
    [of "effect (Open_session ''u1'' ''t3'')
          (effect (Open_session ''u2'' ''t2'') (effect (Open_session ''u1'' ''t1'') empty_db))"
        "''u1''" "''t4''"]
  by (simp add: store_defs)

section \<open>Context window\<close>

text \<open>
  C2, as the code has it. The claim reads: \<open>recent\<close> returns the empty sequence
  whenever \<open>limit \<le> 0\<close>. The limit goes to the engine as it is, and the engine takes a
  negative \<open>LIMIT\<close> for no limit: with one stored message and \<open>limit = -1\<close> the message
  is returned.
\<close>

theorem negative_limit_returns_all:
  "get_recent_context (effect (Append ''u1'' ''user'' ''hello'' ''t1'') empty_db) ''u1'' (- 1)
     = Inr [\<lparr>role = ''user'', content = ''hello''\<rparr>]"
  by (simp add: get_recent_context_def sql_limit_def store_defs)

text \<open>
  C2, amended: for a limit in the signed 64-bit range, \<open>recent(user_id, limit)\<close>
  returns without error; for \<open>limit \<ge> 0\<close> it returns \<open>min limit n\<close> messages, where
  \<open>n\<close> is the number of messages stored for the user (so at most \<open>limit\<close>, all of them
  when fewer exist, none for \<open>limit = 0\<close>); for \<open>limit < 0\<close> it returns all \<open>n\<close>.
\<close>

theorem recent_window_size:
  assumes "- (2 ^ 63) \<le> limit" "limit < 2 ^ 63"
  shows "\<exists>ms. get_recent_context d u limit = Inr ms \<and>
           length ms = (if limit < 0 then length (filter (\<lambda>r. c_user_id r = u) (conversation d))
                        else min (nat limit) (length (filter (\<lambda>r. c_user_id r = u) (conversation d))))"
  using assms by (simp add: get_recent_context_def sql_limit_def min.commute)

theorem recent_window_size_witness:
  "\<exists>ms. get_recent_context
          (effect (Append ''u1'' ''assistant'' ''b'' ''t2'')
            (effect (Append ''u1'' ''user'' ''a'' ''t1'') empty_db)) ''u1'' 1 = Inr ms \<and>
        length ms = 1"
  using recent_window_size
    [of 1 "effect (Append ''u1'' ''assistant'' ''b'' ''t2'')
            (effect (Append ''u1'' ''user'' ''a'' ''t1'') empty_db)" "''u1''"]
  by (simp add: store_defs)

lemma recent_of_wf:
  assumes "wf_db d" "0 \<le> limit" "limit < 2 ^ 63"
  shows "get_recent_context d u limit =
     Inr (map (\<lambda>r. \<lparr>role = c_role r, content = c_message r\<rparr>)
            (drop (length (filter (\<lambda>r. c_user_id r = u) (conversation d)) - nat limit)
                  (filter (\<lambda>r. c_user_id r = u) (conversation d))))"
proof -
  let ?xs = "filter (\<lambda>r. c_user_id r = u) (conversation d)"
  from assms(1) have "sorted_wrt (<) (map c_id (conversation d))"
    by (simp add: wf_db_def)
  then have "sorted_wrt (\<lambda>a b. c_id a < c_id b) ?xs"
    by (simp add: sorted_wrt_map sorted_wrt_filter)
  then have "sorted_wrt (\<lambda>a b. c_id a \<le> c_id b) ?xs"
    by (rule sorted_wrt_mono_rel [rotated]) simp
  then have "sorted (map c_id ?xs)"
    by (simp add: sorted_wrt_map)
  then have "sort_key c_id ?xs = ?xs"
    by (rule sort_key_id_if_sorted)
  with assms(2,3) show ?thesis
    by (simp add: get_recent_context_def sql_limit_def take_rev)
qed

lemma filter_conversation_save_message:
  assumes "save_message d u' rl m now = Inr d'"
  shows "map (\<lambda>r. \<lparr>role = c_role r, content = c_message r\<rparr>)
           (filter (\<lambda>r. c_user_id r = u) (conversation d')) =
         map (\<lambda>r. \<lparr>role = c_role r, content = c_message r\<rparr>)
           (filter (\<lambda>r. c_user_id r = u) (conversation d)) @
         (if u' = u then [\<lparr>role = rl, content = m\<rparr>] else [])"
  using assms by (auto simp: save_message_Inr)

lemma context_save_all:
  "save_all d u ms = Inr d' \<Longrightarrow>
   map (\<lambda>r. \<lparr>role = c_role r, content = c_message r\<rparr>)
      (filter (\<lambda>r. c_user_id r = u) (conversation d')) =
   map (\<lambda>r. \<lparr>role = c_role r, content = c_message r\<rparr>)
      (filter (\<lambda>r. c_user_id r = u) (conversation d)) @
   map (\<lambda>(rl, m, now). \<lparr>role = rl, content = m\<rparr>) ms"
proof (induction d u ms rule: save_all.induct)
  case (1 d user_id)
  then show ?case by simp
next
  case (2 d user_id rl message now rest)
  from "2.prems" obtain d1 where d1: "save_message d user_id rl message now = Inr d1"
    and rest: "save_all d1 user_id rest = Inr d'"
    by (auto split: sum.splits)
  from "2.IH" [OF d1 rest] filter_conversation_save_message [OF d1, of user_id]
  show ?case by simp
qed

lemma save_message_room:
  assumes "largest_rowid (conversation_seq d) (map c_id (conversation d)) < 2 ^ 63 - 1"
  shows "\<exists>d'. save_message d u rl m now = Inr d' \<and>
           largest_rowid (conversation_seq d') (map c_id (conversation d'))
             \<le> largest_rowid (conversation_seq d) (map c_id (conversation d)) + 1"
proof -
  let ?rid = "largest_rowid (conversation_seq d) (map c_id (conversation d)) + 1"
  have rid: "new_rowid (conversation_seq d) (map c_id (conversation d)) = Inr ?rid"
    using assms by (simp add: new_rowid_Inr_iff)
  then have "save_message d u rl m now =
      Inr (d\<lparr>conversation := conversation d @
                [\<lparr>c_id = ?rid, c_user_id = u, c_role = rl, c_message = m, c_timestamp = now\<rparr>],
              conversation_seq := ?rid\<rparr>)"
    by (simp add: save_message_def)
  with largest_rowid_snoc [OF rid] show ?thesis by simp
qed

lemma save_all_room:
  "largest_rowid (conversation_seq d) (map c_id (conversation d)) + int (length ms) < 2 ^ 63
   \<Longrightarrow> \<exists>d'. save_all d u ms = Inr d'"
proof (induction ms arbitrary: d)
  case Nil
  then show ?case by simp
next
  case (Cons x ms)
  obtain rl m now where x: "x = (rl, m, now)" by (cases x)
  from Cons.prems have "largest_rowid (conversation_seq d) (map c_id (conversation d)) < 2 ^ 63 - 1"
    by simp
  from save_message_room [OF this, of u rl m now] obtain d1
    where d1: "save_message d u rl m now = Inr d1"
      and le: "largest_rowid (conversation_seq d1) (map c_id (conversation d1))
                 \<le> largest_rowid (conversation_seq d) (map c_id (conversation d)) + 1"
    by blast
  from le Cons.prems
  have "largest_rowid (conversation_seq d1) (map c_id (conversation d1)) + int (length ms) < 2 ^ 63"
    by simp
  from Cons.IH [OF this] d1 x show ?case by simp
qed

text \<open>
  C3: on any state the store can be in, with rowids left for \<open>N\<close> more messages (the
  largest conversation rowid handed out so far plus \<open>N\<close> stays below \<open>2^63\<close>), \<open>N\<close>
  appends for a user, with any roles and texts, all succeed, and \<open>recent(user_id, N)\<close>
  then is exactly those \<open>N\<close> records as role and content, oldest first.
\<close>

theorem recent_returns_appended_in_order:
  assumes "wf_db d"
    and "largest_rowid (conversation_seq d) (map c_id (conversation d)) + int (length ms) < 2 ^ 63"
  shows "\<exists>d'. save_all d u ms = Inr d' \<and>
           get_recent_context d' u (int (length ms)) =
             Inr (map (\<lambda>(rl, m, now). \<lparr>role = rl, content = m\<rparr>) ms)"
proof -
  let ?f = "\<lambda>r. \<lparr>role = c_role r, content = c_message r\<rparr>"
  let ?old = "filter (\<lambda>r. c_user_id r = u) (conversation d)"
  from save_all_room [OF assms(2)] obtain d' where d': "save_all d u ms = Inr d'"
    by blast
  let ?all = "filter (\<lambda>r. c_user_id r = u) (conversation d')"
  note ctx = context_save_all [OF d']
  have len: "length ?all = length ?old + length ms"
    using arg_cong [OF ctx, of length] by simp
  have "int (length ms) < 2 ^ 63"
    using assms(2) largest_rowid_nonneg [of "conversation_seq d" "map c_id (conversation d)"]
    by linarith
  then have "get_recent_context d' u (int (length ms)) =
      Inr (map ?f (drop (length ?all - length ms) ?all))"
    using recent_of_wf [OF wf_save_all [OF d' assms(1)], of "int (length ms)" u] by simp
  also have "map ?f (drop (length ?all - length ms) ?all) =
      drop (length ?old) (map ?f ?all)"
    by (simp add: len drop_map)
  also have "\<dots> = map (\<lambda>(rl, m, now). \<lparr>role = rl, content = m\<rparr>) ms"
    by (simp add: ctx del: map_map)
  finally show ?thesis using d' by simp
qed

theorem recent_returns_appended_in_order_witness:
  "\<exists>d'. save_all empty_db ''u1''
          [(''user'', ''check balance'', ''t1''), (''assistant'', ''your balance is 500'', ''t2'')]
          = Inr d' \<and>
        get_recent_context d' ''u1'' 2 =
          Inr [\<lparr>role = ''user'', content = ''check balance''\<rparr>,
               \<lparr>role = ''assistant'', content = ''your balance is 500''\<rparr>]"
  using recent_returns_appended_in_order [OF wf_empty_db,
      of "[(''user'', ''check balance'', ''t1''), (''assistant'', ''your balance is 500'', ''t2'')]"
         "''u1''"]
  by (simp add: empty_db_def largest_rowid_def)

section \<open>Profile store\<close>

lemma filter_distinct_user_id:
  "distinct (map u_user_id rs) \<Longrightarrow> length (filter (\<lambda>r. u_user_id r = u) rs) \<le> 1"
  by (induction rs) (auto simp: filter_empty_conv image_iff)

lemma count_after_create:
  assumes "create_user_profile d u n l t now = Inr d'"
    and "distinct (map u_user_id (users d))"
  shows "length (filter (\<lambda>r. u_user_id r = u) (users d')) = 1"
proof (cases "list_ex (\<lambda>r. u_user_id r = u) (users d)")
  case True
  then have "filter (\<lambda>r. u_user_id r = u) (users d) \<noteq> []"
    by (auto simp: list_ex_iff filter_empty_conv)
  then have "Suc 0 \<le> length (filter (\<lambda>r. u_user_id r = u) (users d))"
    by (simp add: Suc_le_eq)
  with filter_distinct_user_id [OF assms(2), of u]
  have "length (filter (\<lambda>r. u_user_id r = u) (users d)) = 1"
    by linarith
  with True assms(1) show ?thesis
    by (auto simp: create_user_profile_Inr)
next
  case False
  then have "filter (\<lambda>r. u_user_id r = u) (users d) = []"
    by (auto simp: list_ex_iff filter_empty_conv)
  with False assms(1) show ?thesis
    by (auto simp: create_user_profile_Inr)
qed

lemma exists_after_create:
  "create_user_profile d u n l t now = Inr d' \<Longrightarrow> list_ex (\<lambda>r. u_user_id r = u) (users d')"
  by (auto simp: create_user_profile_Inr list_ex_iff split: if_splits)

lemma create_user_profile_room:
  assumes "largest_rowid (users_seq d) (map u_id (users d)) < 2 ^ 63 - 1"
  shows "\<exists>d'. create_user_profile d u n l t now = Inr d' \<and>
           largest_rowid (users_seq d') (map u_id (users d'))
             \<le> largest_rowid (users_seq d) (map u_id (users d)) + 1"
proof -
  let ?rid = "largest_rowid (users_seq d) (map u_id (users d)) + 1"
  have rid: "new_rowid (users_seq d) (map u_id (users d)) = Inr ?rid"
    using assms by (simp add: new_rowid_Inr_iff)
  show ?thesis
  proof (cases "list_ex (\<lambda>r. u_user_id r = u) (users d)")
    case True
    with rid have "create_user_profile d u n l t now = Inr (d\<lparr>users_seq := ?rid\<rparr>)"
      by (simp add: create_user_profile_def)
    with largest_rowid_same [OF rid] show ?thesis by simp
  next
    case False
    with rid have "create_user_profile d u n l t now =
        Inr (d\<lparr>users := users d @
                  [\<lparr>u_id = ?rid, u_user_id = u, u_name = n, u_preferred_language = l,
                    u_voice_tone = t, u_created_at = now\<rparr>],
                users_seq := ?rid\<rparr>)"
      by (simp add: create_user_profile_def)
    with largest_rowid_snoc [OF rid] show ?thesis by simp
  qed
qed

text \<open>
  C4: profile creation is idempotent. On any state the store can be in, with rowids
  left for two more profiles (the largest users rowid handed out so far plus 2 stays
  below \<open>2^63\<close>), a first \<open>create_user_profile\<close> for a \<open>user_id\<close> and a second one with
  any name, language, tone and clock reading both return without error; the second
  leaves the profile table as the first call left it (so \<open>created_at\<close>, \<open>name\<close>,
  \<open>preferred_language\<close> and \<open>voice_tone\<close> are those of the first call), the table holds
  exactly one row for that \<open>user_id\<close>, and \<open>get_user_profile\<close> answers as before.
\<close>

theorem create_user_profile_idempotent:
  assumes "wf_db d"
    and "largest_rowid (users_seq d) (map u_id (users d)) + 2 < 2 ^ 63"
  shows "\<exists>d1 d2.
    create_user_profile d u n l t now = Inr d1 \<and>
    create_user_profile d1 u n' l' t' now' = Inr d2 \<and>
    users d2 = users d1 \<and>
    length (filter (\<lambda>r. u_user_id r = u) (users d2)) = 1 \<and>
    get_user_profile d2 u = get_user_profile d1 u"
proof -
  from assms(2) have "largest_rowid (users_seq d) (map u_id (users d)) < 2 ^ 63 - 1"
    by simp
  from create_user_profile_room [OF this, of u n l t now] obtain d1
    where d1: "create_user_profile d u n l t now = Inr d1"
      and le: "largest_rowid (users_seq d1) (map u_id (users d1))
                 \<le> largest_rowid (users_seq d) (map u_id (users d)) + 1"
    by blast
  from le assms(2) have "largest_rowid (users_seq d1) (map u_id (users d1)) < 2 ^ 63 - 1"
    by simp
  from create_user_profile_room [OF this, of u n' l' t' now'] obtain d2
    where d2: "create_user_profile d1 u n' l' t' now' = Inr d2"
    by blast
  have same: "users d2 = users d1"
    using d2 exists_after_create [OF d1] by (auto simp: create_user_profile_Inr)
  have "distinct (map u_user_id (users d))"
    using assms(1) by (simp add: wf_db_def)
  with d1 have "length (filter (\<lambda>r. u_user_id r = u) (users d1)) = 1"
    by (rule count_after_create)
  with same d1 d2 show ?thesis
    by (simp add: get_user_profile_def)
qed

theorem create_user_profile_idempotent_witness:
  "\<exists>d1 d2.
     create_user_profile empty_db ''u1'' ''U1'' ''en'' ''neutral'' ''t1'' = Inr d1 \<and>
     create_user_profile d1 ''u1'' ''Other'' ''hi'' ''warm'' ''t2'' = Inr d2 \<and>
     users d2 =
       [\<lparr>u_id = 1, u_user_id = ''u1'', u_name = ''U1'', u_preferred_language = ''en'',
         u_voice_tone = ''neutral'', u_created_at = ''t1''\<rparr>]"
  using create_user_profile_idempotent [OF wf_empty_db,
      of "''u1''" "''U1''" "''en''" "''neutral''" "''t1''" "''Other''" "''hi''" "''warm''" "''t2''"]
  by (auto simp: store_defs)

lemma map_set_language_absent:
  "\<forall>r\<in>set rs. u_user_id r \<noteq> u \<Longrightarrow> map (set_language u l) rs = rs"
  by (induction rs) (auto simp: set_language_def)

lemma map_set_tone_absent:
  "\<forall>r\<in>set rs. u_user_id r \<noteq> u \<Longrightarrow> map (set_tone u l) rs = rs"
  by (induction rs) (auto simp: set_tone_def)

lemma map_close_row_absent:
  "\<forall>r\<in>set rs. s_user_id r \<noteq> u \<Longrightarrow> map (close_row u now) rs = rs"
  by (induction rs) (auto simp: close_row_def)

lemma find_absent: "\<forall>r\<in>set rs. \<not> P r \<Longrightarrow> find P rs = None"
  by (induction rs) auto

text \<open>
  C6: for a \<open>user_id\<close> that has no profile row and no session row,
  \<open>update_user_preferences\<close> (with any language and tone) and \<open>end_session\<close> return the
  whole stored state as it was, and \<open>get_user_profile\<close> returns \<open>None\<close>. None of the
  three has an error result.
\<close>

theorem absent_user_noop:
  assumes "\<forall>r\<in>set (users d). u_user_id r \<noteq> u"
    and "\<forall>r\<in>set (sessions d). s_user_id r \<noteq> u"
  shows "update_user_preferences d u language tone = d \<and>
         end_session d u now = d \<and>
         get_user_profile d u = None"
proof -
  have "update_user_preferences d u language tone = d"
    using assms(1)
    by (simp add: update_user_preferences_def Let_def map_set_language_absent
        map_set_tone_absent split: option.splits)
  moreover have "end_session d u now = d"
    using assms(2) by (simp add: end_session_def map_close_row_absent)
  moreover have "get_user_profile d u = None"
    using assms(1) by (simp add: get_user_profile_def find_absent)
  ultimately show ?thesis by simp
qed

theorem absent_user_noop_witness:
  "update_user_preferences
      (effect (Open_session ''u1'' ''t2'')
        (effect (Ensure_profile ''u1'' ''U1'' ''en'' ''neutral'' ''t1'') empty_db))
      ''u2'' (Some ''hi'') (Some ''warm'') =
    effect (Open_session ''u1'' ''t2'')
      (effect (Ensure_profile ''u1'' ''U1'' ''en'' ''neutral'' ''t1'') empty_db) \<and>
   end_session
      (effect (Open_session ''u1'' ''t2'')
        (effect (Ensure_profile ''u1'' ''U1'' ''en'' ''neutral'' ''t1'') empty_db))
      ''u2'' ''t3'' =
    effect (Open_session ''u1'' ''t2'')
      (effect (Ensure_profile ''u1'' ''U1'' ''en'' ''neutral'' ''t1'') empty_db) \<and>
   get_user_profile
      (effect (Open_session ''u1'' ''t2'')
        (effect (Ensure_profile ''u1'' ''U1'' ''en'' ''neutral'' ''t1'') empty_db))
      ''u2'' = None"
  using absent_user_noop
    [of "effect (Open_session ''u1'' ''t2'')
          (effect (Ensure_profile ''u1'' ''U1'' ''en'' ''neutral'' ''t1'') empty_db)"
        "''u2''" "Some ''hi''" "Some ''warm''" "''t3''"]
  by (simp add: store_defs)

lemma map_set_language_fields:
  "map u_id (map (set_language u l) rs) = map u_id rs"
  "map u_user_id (map (set_language u l) rs) = map u_user_id rs"
  "map u_name (map (set_language u l) rs) = map u_name rs"
  "map u_voice_tone (map (set_language u l) rs) = map u_voice_tone rs"
  "map u_created_at (map (set_language u l) rs) = map u_created_at rs"
  "filter (\<lambda>r. u_user_id r \<noteq> u) (map (set_language u l) rs) = filter (\<lambda>r. u_user_id r \<noteq> u) rs"
  by (induction rs) (auto simp: set_language_def)

lemma map_set_tone_fields:
  "map u_id (map (set_tone u l) rs) = map u_id rs"
  "map u_user_id (map (set_tone u l) rs) = map u_user_id rs"
  "map u_name (map (set_tone u l) rs) = map u_name rs"
  "map u_preferred_language (map (set_tone u l) rs) = map u_preferred_language rs"
  "map u_created_at (map (set_tone u l) rs) = map u_created_at rs"
  "filter (\<lambda>r. u_user_id r \<noteq> u) (map (set_tone u l) rs) = filter (\<lambda>r. u_user_id r \<noteq> u) rs"
  by (induction rs) (auto simp: set_tone_def)

lemma update_user_preferences_cases:
  "update_user_preferences d u language tone =
     d\<lparr>users := map (case tone of None \<Rightarrow> id | Some t \<Rightarrow> if t = [] then id else set_tone u t)
                 (map (case language of None \<Rightarrow> id | Some l \<Rightarrow> if l = [] then id else set_language u l)
                    (users d))\<rparr>"
  by (simp add: update_user_preferences_def Let_def split: option.splits)

lemma language_after_update:
  assumes "l \<noteq> []" "r \<in> set (users (update_user_preferences d u (Some l) tone))" "u_user_id r = u"
  shows "u_preferred_language r = l"
proof -
  let ?g = "case tone of None \<Rightarrow> id | Some t \<Rightarrow> if t = [] then id else set_tone u t"
  from assms(1,2) obtain r0 where r0: "r0 \<in> set (users d)" "r = ?g (set_language u l r0)"
    by (auto simp: update_user_preferences_cases)
  have g: "u_user_id (?g x) = u_user_id x \<and> u_preferred_language (?g x) = u_preferred_language x" for x
    by (cases tone) (simp_all add: set_tone_def)
  from r0(2) assms(3) g [of "set_language u l r0"] show ?thesis
    by (simp add: set_language_def split: if_splits)
qed

lemma tone_after_update:
  assumes "t \<noteq> []" "r \<in> set (users (update_user_preferences d u language (Some t)))" "u_user_id r = u"
  shows "u_voice_tone r = t"
proof -
  let ?g = "case language of None \<Rightarrow> id | Some l \<Rightarrow> if l = [] then id else set_language u l"
  from assms(1,2) obtain r0 where r0: "r0 \<in> set (users d)" "r = set_tone u t (?g r0)"
    by (auto simp: update_user_preferences_cases)
  have g: "u_user_id (?g x) = u_user_id x" for x
    by (cases language) (simp_all add: set_language_def)
  from r0(2) assms(3) g [of r0] show ?thesis
    by (simp add: set_tone_def split: if_splits)
qed

text \<open>
  C7: \<open>update_user_preferences\<close> is a partial update that respects its frame. With any
  arguments it leaves conversation and session rows as they were, keeps the number and
  order of the profile rows and, in every profile row, the rowid, \<open>user_id\<close>, \<open>name\<close> and
  \<open>created_at\<close>; rows of other users are unchanged altogether. When no tone is supplied
  every \<open>voice_tone\<close> is unchanged (only \<open>preferred_language\<close> can differ), and when no
  language is supplied every \<open>preferred_language\<close> is unchanged (only \<open>voice_tone\<close> can
  differ).
\<close>

theorem update_user_preferences_frame:
  "conversation (update_user_preferences d u language tone) = conversation d \<and>
   sessions (update_user_preferences d u language tone) = sessions d \<and>
   map u_id (users (update_user_preferences d u language tone)) = map u_id (users d) \<and>
   map u_user_id (users (update_user_preferences d u language tone)) = map u_user_id (users d) \<and>
   map u_name (users (update_user_preferences d u language tone)) = map u_name (users d) \<and>
   map u_created_at (users (update_user_preferences d u language tone)) = map u_created_at (users d) \<and>
   (tone = None \<longrightarrow>
      map u_voice_tone (users (update_user_preferences d u language tone)) =
      map u_voice_tone (users d)) \<and>
   (language = None \<longrightarrow>
      map u_preferred_language (users (update_user_preferences d u language tone)) =
      map u_preferred_language (users d)) \<and>
   filter (\<lambda>r. u_user_id r \<noteq> u) (users (update_user_preferences d u language tone)) =
   filter (\<lambda>r. u_user_id r \<noteq> u) (users d)"
  by (cases language; cases tone)
     (simp_all add: update_user_preferences_cases map_set_language_fields map_set_tone_fields
        del: map_map)

theorem update_user_preferences_frame_witness:
  "users (update_user_preferences
      (effect (Ensure_profile ''u1'' ''U1'' ''en'' ''neutral'' ''t1'') empty_db)
      ''u1'' (Some ''hi'') None) =
    [\<lparr>u_id = 1, u_user_id = ''u1'', u_name = ''U1'', u_preferred_language = ''hi'',
      u_voice_tone = ''neutral'', u_created_at = ''t1''\<rparr>] \<and>
   map u_voice_tone (users (update_user_preferences
      (effect (Ensure_profile ''u1'' ''U1'' ''en'' ''neutral'' ''t1'') empty_db)
      ''u1'' (Some ''hi'') None)) =
   map u_voice_tone (users (effect (Ensure_profile ''u1'' ''U1'' ''en'' ''neutral'' ''t1'') empty_db))"
  using update_user_preferences_frame
    [of "effect (Ensure_profile ''u1'' ''U1'' ''en'' ''neutral'' ''t1'') empty_db"
        "''u1''" "Some ''hi''" None]
  by (simp add: update_user_preferences_def set_language_def store_defs)

section \<open>Conversation log\<close>

text \<open>
  C8: the conversation log is append-only. Whatever store operation runs
  (\<open>ensure_profile\<close>, \<open>get_profile\<close>, \<open>update_preferences\<close>, \<open>append\<close>, \<open>recent\<close>,
  \<open>open_session\<close>, \<open>close_session\<close>), the conversation rows stored before it are a
  prefix of the rows stored after it: each earlier row is still there, at its place,
  with its id, user, role, message and timestamp.
\<close>

theorem conversation_append_only:
  "prefix (conversation d) (conversation (effect op d))"
proof (cases op)
  case (Ensure_profile u n l t now)
  have "conversation d' = conversation d" if "create_user_profile d u n l t now = Inr d'" for d'
    using that by (auto simp: create_user_profile_Inr split: if_splits)
  with Ensure_profile show ?thesis
    by (cases "create_user_profile d u n l t now") (simp_all add: state_after_def)
next
  case (Append u rl m now)
  have "prefix (conversation d) (conversation d')" if "save_message d u rl m now = Inr d'" for d'
    using that by (auto simp: save_message_Inr)
  with Append show ?thesis
    by (cases "save_message d u rl m now") (simp_all add: state_after_def)
next
  case (Open_session u now)
  have "conversation d' = conversation d" if "start_session d u now = Inr d'" for d'
    using that by (auto simp: start_session_Inr)
  with Open_session show ?thesis
    by (cases "start_session d u now") (simp_all add: state_after_def)
qed (simp_all add: update_user_preferences_cases end_session_def)

theorem conversation_append_only_witness:
  "prefix (conversation (effect (Append ''u1'' ''user'' ''hello'' ''t1'') empty_db))
     (conversation (effect (Append ''u1'' ''assistant'' ''hi'' ''t2'')
        (effect (Append ''u1'' ''user'' ''hello'' ''t1'') empty_db)))"
  using conversation_append_only
    [of "effect (Append ''u1'' ''user'' ''hello'' ''t1'') empty_db"
        "Append ''u1'' ''assistant'' ''hi'' ''t2''"]
  by simp

text \<open>
  C9: an empty string for language or tone is the same as not supplying it: the call
  has the effect of the call with \<open>None\<close> in that place, and the stored
  \<open>preferred_language\<close> (respectively \<open>voice_tone\<close>) of every profile is unchanged.
\<close>

theorem empty_string_leaves_preference:
  "update_user_preferences d u (Some []) tone = update_user_preferences d u None tone \<and>
   update_user_preferences d u language (Some []) = update_user_preferences d u language None \<and>
   map u_preferred_language (users (update_user_preferences d u (Some []) tone)) =
     map u_preferred_language (users d) \<and>
   map u_voice_tone (users (update_user_preferences d u language (Some []))) =
     map u_voice_tone (users d)"
  by (cases language; cases tone)
     (simp_all add: update_user_preferences_cases map_set_language_fields map_set_tone_fields
        del: map_map)

theorem empty_string_leaves_preference_witness:
  "users (update_user_preferences
      (effect (Ensure_profile ''u1'' ''U1'' ''en'' ''neutral'' ''t1'') empty_db)
      ''u1'' (Some []) (Some [])) =
    [\<lparr>u_id = 1, u_user_id = ''u1'', u_name = ''U1'', u_preferred_language = ''en'',
      u_voice_tone = ''neutral'', u_created_at = ''t1''\<rparr>]"
  using empty_string_leaves_preference
    [of "effect (Ensure_profile ''u1'' ''U1'' ''en'' ''neutral'' ''t1'') empty_db"
        "''u1''" "Some []" "Some []"]
  by (simp add: update_user_preferences_def store_defs)

lemma get_user_profile_own_row:
  assumes "get_user_profile d u = Some p"
  shows "\<exists>r\<in>set (users d). u_user_id r = u \<and>
           p = \<lparr>p_name = u_name r, p_language = u_preferred_language r, p_tone = u_voice_tone r\<rparr>"
proof -
  from assms obtain r where r: "find (\<lambda>r. u_user_id r = u) (users d) = Some r"
    and p: "p = \<lparr>p_name = u_name r, p_language = u_preferred_language r, p_tone = u_voice_tone r\<rparr>"
    by (auto simp: get_user_profile_def split: option.splits)
  from r have "r \<in> set (users d) \<and> u_user_id r = u"
    by (auto simp: find_Some_iff)
  with p show ?thesis by blast
qed

text \<open>
  C10: reads are isolated per user. For distinct users \<open>u1\<close> and \<open>u2\<close>, an append for
  \<open>u1\<close> (whether it stores its row or raises) changes neither \<open>recent(u2, limit)\<close>, for
  any limit, nor \<open>get_profile(u2)\<close>. Each read returns only rows of the user asked for:
  every record that \<open>recent(u2, limit)\<close> returns is the role and message of a stored
  conversation row whose \<open>user_id\<close> is \<open>u2\<close>, and a profile that \<open>get_profile(u2)\<close>
  returns is the name, language and tone of a stored profile row whose \<open>user_id\<close> is
  \<open>u2\<close>.
\<close>

theorem reads_isolated_from_other_users_append:
  assumes "u1 \<noteq> u2"
  shows "get_recent_context (effect (Append u1 rl m now) d) u2 limit = get_recent_context d u2 limit \<and>
         get_user_profile (effect (Append u1 rl m now) d) u2 = get_user_profile d u2 \<and>
         (\<forall>ms. get_recent_context d u2 limit = Inr ms \<longrightarrow>
            set ms \<subseteq> (\<lambda>r. \<lparr>role = c_role r, content = c_message r\<rparr>) `
                       {r \<in> set (conversation d). c_user_id r = u2}) \<and>
         (\<forall>p. get_user_profile d u2 = Some p \<longrightarrow>
            (\<exists>r\<in>set (users d). u_user_id r = u2 \<and>
               p = \<lparr>p_name = u_name r, p_language = u_preferred_language r,
                     p_tone = u_voice_tone r\<rparr>))"
proof -
  have "get_recent_context d' u2 limit = get_recent_context d u2 limit
      \<and> get_user_profile d' u2 = get_user_profile d u2"
    if "save_message d u1 rl m now = Inr d'" for d'
    using that assms
    by (auto simp: save_message_Inr get_recent_context_def get_user_profile_def)
  then have "get_recent_context (effect (Append u1 rl m now) d) u2 limit = get_recent_context d u2 limit
      \<and> get_user_profile (effect (Append u1 rl m now) d) u2 = get_user_profile d u2"
    by (cases "save_message d u1 rl m now") (simp_all add: state_after_def)
  moreover have "\<forall>ms. get_recent_context d u2 limit = Inr ms \<longrightarrow>
            set ms \<subseteq> (\<lambda>r. \<lparr>role = c_role r, content = c_message r\<rparr>) `
                       {r \<in> set (conversation d). c_user_id r = u2}"
  proof (intro allI impI)
    fix ms
    let ?f = "\<lambda>r. \<lparr>role = c_role r, content = c_message r\<rparr>"
    let ?xs = "rev (sort_key c_id (filter (\<lambda>r. c_user_id r = u2) (conversation d)))"
    assume "get_recent_context d u2 limit = Inr ms"
    then have "ms = map ?f (rev (sql_limit limit ?xs))"
      by (simp add: get_recent_context_def split: if_splits)
    then have "set ms = ?f ` set (sql_limit limit ?xs)"
      by simp
    moreover have "set (sql_limit limit ?xs) \<subseteq> set ?xs"
      by (auto simp: sql_limit_def dest: in_set_takeD)
    moreover have "set ?xs = {r \<in> set (conversation d). c_user_id r = u2}"
      by auto
    ultimately show "set ms \<subseteq> ?f ` {r \<in> set (conversation d). c_user_id r = u2}"
      by blast
  qed
  moreover have "\<forall>p. get_user_profile d u2 = Some p \<longrightarrow>
            (\<exists>r\<in>set (users d). u_user_id r = u2 \<and>
               p = \<lparr>p_name = u_name r, p_language = u_preferred_language r,
                     p_tone = u_voice_tone r\<rparr>)"
    using get_user_profile_own_row by blast
  ultimately show ?thesis by blast
qed

theorem reads_isolated_from_other_users_append_witness:
  "get_recent_context
     (effect (Append ''u1'' ''user'' ''theirs'' ''t2'')
       (effect (Append ''u2'' ''user'' ''mine'' ''t1'') empty_db))
     ''u2'' 8 = Inr [\<lparr>role = ''user'', content = ''mine''\<rparr>]"
  using reads_isolated_from_other_users_append
    [of "''u1''" "''u2''" "''user''" "''theirs''" "''t2''"
        "effect (Append ''u2'' ''user'' ''mine'' ''t1'') empty_db" 8]
  by (simp add: get_recent_context_def sql_limit_def store_defs)

section \<open>Closing the session when \<open>main\<close> is left\<close>

lemma end_session_leaves_none_open:
  assumes "r \<in> set (sessions (end_session d user_id now))" "s_user_id r = user_id"
  shows "s_session_end r \<noteq> None"
proof -
  from assms(1) obtain r0 where r0: "r = close_row user_id now r0"
    by (auto simp: end_session_def)
  show ?thesis
  proof (cases "s_user_id r0 = user_id \<and> s_session_end r0 = None")
    case True
    with r0 show ?thesis by (simp add: close_row_def)
  next
    case False
    with r0 have "r = r0" by (simp add: close_row_def)
    with False assms(2) show ?thesis by simp
  qed
qed

lemma try_finally_Some:
  assumes "try_finally user_id now body = Some (left, d')"
  shows "\<exists>d0. d' = end_session d0 user_id now"
proof (cases body)
  case None
  with assms show ?thesis by (simp add: try_finally_def)
next
  case (Some a)
  obtain l d0 where "a = (l, d0)" by (cases a)
  with Some assms have "d' = end_session d0 user_id now"
    by (simp add: try_finally_def)
  then show ?thesis ..
qed

text \<open>
  Once the \<open>try\<close> statement of \<open>main\<close> has been entered, every way of leaving it (an exit
  phrase, \<open>KeyboardInterrupt\<close>, an exception under \<open>Exception\<close>, or an exception that
  passes through both handlers) runs \<open>end_session\<close>: no session of the user is left
  open.
\<close>

lemma try_statement_closes_session:
  assumes "try_finally user_id now (voice_loop cfg user_id preferred_lang ts d) = Some (left, d')"
    and "r \<in> set (sessions d')" and "s_user_id r = user_id"
  shows "s_session_end r \<noteq> None"
proof -
  from try_finally_Some [OF assms(1)] obtain d0 where "d' = end_session d0 user_id now" ..
  with assms(2) have "r \<in> set (sessions (end_session d0 user_id now))" by simp
  from end_session_leaves_none_open [OF this assms(3)] show ?thesis .
qed

text \<open>
  Claim C5: once \<open>start_session\<close> has run, \<open>end_session\<close> is invoked on every exit path
  (exit phrase, user interruption, unexpected error), so that the session opened by the
  run has a non-null \<open>session_end\<close> when \<open>main\<close> is left.

  \<open>main\<close> calls \<open>start_session\<close> (line 299), plays the greeting (line 303) and constructs
  the recognizer (line 305) before its \<open>try\<close> statement begins (line 307), and
  \<open>speak_text\<close> absorbs \<open>Exception\<close> only. On a fresh database, with the user \<open>u1\<close>
  interrupting the greeting (\<open>KeyboardInterrupt\<close> during playback), \<open>main\<close> is left with
  that exception and the session row just opened keeps \<open>session_end = NULL\<close>:
  \<open>end_session\<close> has not been called.
\<close>

theorem main_interrupted_greeting_leaves_session_open:
  "main \<lparr>default_language = ''en'', supported_lang_codes_for_tts = [''en'', ''hi''],
          max_context_messages = 10\<rparr>
        \<lparr>r_user_id = Returns ''u1'', r_now_create = ''t0'', r_now_start = ''t1'',
          r_greeting = Raises KeyboardInterrupt, r_recognizer = Returns (), r_turns = [],
          r_now_end = ''t2''\<rparr>
        (init_db None)
   = Some (Some KeyboardInterrupt,
       \<lparr>users = [\<lparr>u_id = 1, u_user_id = ''u1'', u_name = ''u1'', u_preferred_language = ''en'',
                   u_voice_tone = ''neutral'', u_created_at = ''t0''\<rparr>],
         users_seq = 1, conversation = [], conversation_seq = 0,
         sessions = [\<lparr>s_id = 1, s_user_id = ''u1'', s_session_start = ''t1'',
                      s_session_end = None\<rparr>],
         sessions_seq = 1\<rparr>)"
proof -
  let ?d1 = "\<lparr>users = [\<lparr>u_id = 1, u_user_id = ''u1'', u_name = ''u1'',
                   u_preferred_language = ''en'', u_voice_tone = ''neutral'',
                   u_created_at = ''t0''\<rparr>],
         users_seq = 1, conversation = [], conversation_seq = 0,
         sessions = [], sessions_seq = 0\<rparr>"
  have p0: "get_user_profile empty_db ''u1'' = None"
    by (simp add: get_user_profile_def empty_db_def)
  have c: "create_user_profile empty_db ''u1'' ''u1'' ''en'' ''neutral'' ''t0'' = Inr ?d1"
    by (simp add: create_user_profile_def new_rowid_def largest_rowid_def empty_db_def)
  have p1: "get_user_profile ?d1 ''u1''
      = Some \<lparr>p_name = ''u1'', p_language = ''en'', p_tone = ''neutral''\<rparr>"
    by (simp add: get_user_profile_def)
  have s: "start_session ?d1 ''u1'' ''t1'' = Inr
       \<lparr>users = [\<lparr>u_id = 1, u_user_id = ''u1'', u_name = ''u1'', u_preferred_language = ''en'',
                   u_voice_tone = ''neutral'', u_created_at = ''t0''\<rparr>],
         users_seq = 1, conversation = [], conversation_seq = 0,
         sessions = [\<lparr>s_id = 1, s_user_id = ''u1'', s_session_start = ''t1'',
                      s_session_end = None\<rparr>],
         sessions_seq = 1\<rparr>"
    by (simp add: start_session_def new_rowid_def largest_rowid_def)
  show ?thesis
    by (simp add: main_def leave_def init_db_def p0 c p1 s store_call_def speak_text_def
        except_Exception_def)
qed

end
